theory Spec2Isabelle
  imports
    Complex_Main
    "HOL-Library.Char_ord"
    "HOL-Library.List_Lexorder"
    "HOL-Library.Product_Lexorder"
    "HOL-Library.Sublist"
    "HOL-Library.Multiset"
begin

section \<open>The data frame of app.py\<close>

text \<open>
  \<^verbatim>\<open>app.py\<close> keeps the arrests in a pandas data frame: a header of column names
  and a sequence of rows. A row has one cell for each column the program reads or
  writes. A numeric or text cell that is empty in the CSV is NaN, here \<open>None\<close>.
  The cell of \<^verbatim>\<open>arrest_date\<close> is the text read from the CSV until
  \<^verbatim>\<open>pd.to_datetime\<close> replaces it by a time stamp; an empty cell is NaN before
  and NaT after, both \<open>NaT\<close> here.

  A cell of a column that is not in the header is never read: every access to a
  column looks the name up in the header first and raises \<^verbatim>\<open>KeyError\<close> when it
  is absent.
\<close>

record timestamp =
  ts_year :: int
  ts_month :: int
  ts_day :: int
  ts_hour :: int
  ts_minute :: int
  ts_second :: int

datatype date_cell = NaT | Text string | Stamp timestamp

record row =
  arrest_date :: date_cell
  latitude :: "real option"
  longitude :: "real option"
  ofns_desc :: "string option"
  arrest_boro :: "string option"
  arrest_precinct :: "string option"
  year :: "int option"
  month :: "int option"
  month_name :: "string option"
  day_of_week :: "string option"
  hour :: "int option"
  color :: "nat list option"

record dataframe =
  columns :: "string list"
  rows :: "row list"

text \<open>
  The exceptions the loading code can raise: \<^verbatim>\<open>KeyError\<close> with the key (or the
  list of keys) that is not a column, and the \<^verbatim>\<open>ValueError\<close> of
  \<^verbatim>\<open>pd.to_datetime\<close> on a text that is not a date, with that text. The source
  defines no exception class of its own.
\<close>

datatype error = KeyError "string list" | ValueError string

subsection \<open>Boolean masks\<close>

text \<open>
  \<^verbatim>\<open>df[mask]\<close> keeps the rows at which the mask holds; \<^verbatim>\<open>a & b\<close> is the
  elementwise conjunction; \<^verbatim>\<open>s != v\<close>, \<^verbatim>\<open>s == v\<close> and \<^verbatim>\<open>s.isin(vs)\<close> compare
  cell by cell. NaN differs from every value, equals none and, the list of values
  holding no NaN, is in no list.
\<close>

definition boolean_index :: "dataframe \<Rightarrow> bool list \<Rightarrow> dataframe" where
  "boolean_index df keep = df\<lparr>rows := map fst (filter snd (zip (rows df) keep))\<rparr>"

definition mask_and :: "bool list \<Rightarrow> bool list \<Rightarrow> bool list" where
  "mask_and a b = map2 (\<and>) a b"

definition col_ne :: "'a option list \<Rightarrow> 'a \<Rightarrow> bool list" where
  "col_ne col v = map (\<lambda>c. c \<noteq> Some v) col"

definition col_eq :: "'a option list \<Rightarrow> 'a \<Rightarrow> bool list" where
  "col_eq col v = map (\<lambda>c. c = Some v) col"

definition isin :: "'a option list \<Rightarrow> 'a list \<Rightarrow> bool list" where
  "isin col vs = map (\<lambda>c. case c of None \<Rightarrow> False | Some v \<Rightarrow> v \<in> set vs) col"

subsection \<open>Time features\<close>

text \<open>
  \<^verbatim>\<open>dt.month_name()\<close> and \<^verbatim>\<open>dt.day_name()\<close> in English. A time stamp of pandas has
  a month from 1 to 12; the names below are total, with the empty string outside
  that range. The day of the week is computed from the Gregorian date.
\<close>

definition calendar_month_name :: "string list" where
  "calendar_month_name =
     ['''', ''January'', ''February'', ''March'', ''April'', ''May'', ''June'', ''July'',
      ''August'', ''September'', ''October'', ''November'', ''December'']"

definition dt_month_name :: "timestamp \<Rightarrow> string" where
  "dt_month_name t =
     (if 1 \<le> ts_month t \<and> ts_month t \<le> 12 then calendar_month_name ! nat (ts_month t)
      else '''')"

definition weekday :: "timestamp \<Rightarrow> nat" where
  "weekday t =
     (let y = (if ts_month t < 3 then ts_year t - 1 else ts_year t);
          off = [0, 3, 2, 5, 0, 3, 5, 1, 4, 6, 2, 4 :: int];
          m = (if 1 \<le> ts_month t \<and> ts_month t \<le> 12 then off ! nat (ts_month t - 1) else 0)
      in nat ((y + y div 4 - y div 100 + y div 400 + m + ts_day t + 6) mod 7))"

definition dt_day_name :: "timestamp \<Rightarrow> string" where
  "dt_day_name t =
     [''Monday'', ''Tuesday'', ''Wednesday'', ''Thursday'', ''Friday'', ''Saturday'',
      ''Sunday''] ! weekday t"

definition stamp_of :: "date_cell \<Rightarrow> timestamp option" where
  "stamp_of c = (case c of Stamp t \<Rightarrow> Some t | _ \<Rightarrow> None)"

definition assign_column :: "string \<Rightarrow> (row \<Rightarrow> row) \<Rightarrow> dataframe \<Rightarrow> dataframe" where
  "assign_column name f df =
     \<lparr>columns = (if name \<in> set (columns df) then columns df else columns df @ [name]),
      rows = map f (rows df)\<rparr>"

definition extract_time_features :: "dataframe \<Rightarrow> dataframe" where
  "extract_time_features df =
     (let df = assign_column ''year''
                 (\<lambda>r. r\<lparr>year := map_option ts_year (stamp_of (arrest_date r))\<rparr>) df;
          df = assign_column ''month''
                 (\<lambda>r. r\<lparr>month := map_option ts_month (stamp_of (arrest_date r))\<rparr>) df;
          df = assign_column ''month_name''
                 (\<lambda>r. r\<lparr>month_name := map_option dt_month_name (stamp_of (arrest_date r))\<rparr>) df;
          df = assign_column ''day_of_week''
                 (\<lambda>r. r\<lparr>day_of_week := map_option dt_day_name (stamp_of (arrest_date r))\<rparr>) df;
          df = assign_column ''hour''
                 (\<lambda>r. r\<lparr>hour := map_option ts_hour (stamp_of (arrest_date r))\<rparr>) df
      in df)"

subsection \<open>Preprocessing steps\<close>

text \<open>
  \<^verbatim>\<open>pd.to_datetime\<close> parses the text of a cell; the parser of pandas is a
  parameter \<open>parse\<close> of the model, \<open>None\<close> where pandas raises. An empty cell
  becomes NaT and a time stamp stays.
\<close>

definition to_datetime :: "(string \<Rightarrow> timestamp option) \<Rightarrow> date_cell \<Rightarrow> error + date_cell" where
  "to_datetime parse c =
     (case c of
        NaT \<Rightarrow> Inr NaT
      | Stamp t \<Rightarrow> Inr (Stamp t)
      | Text s \<Rightarrow> (case parse s of None \<Rightarrow> Inl (ValueError s) | Some t \<Rightarrow> Inr (Stamp t)))"

fun to_datetime_rows :: "(string \<Rightarrow> timestamp option) \<Rightarrow> row list \<Rightarrow> error + row list" where
  "to_datetime_rows parse [] = Inr []"
| "to_datetime_rows parse (r # rs) =
     (case to_datetime parse (arrest_date r) of
        Inl e \<Rightarrow> Inl e
      | Inr d \<Rightarrow>
          (case to_datetime_rows parse rs of
             Inl e \<Rightarrow> Inl e
           | Inr rs' \<Rightarrow> Inr (r\<lparr>arrest_date := d\<rparr> # rs')))"

text \<open>Line 49 and line 77: \<^verbatim>\<open>df['arrest_date'] = pd.to_datetime(df['arrest_date'])\<close>.\<close>

definition parse_arrest_date :: "(string \<Rightarrow> timestamp option) \<Rightarrow> dataframe \<Rightarrow> error + dataframe" where
  "parse_arrest_date parse df =
     (if ''arrest_date'' \<notin> set (columns df) then Inl (KeyError [''arrest_date''])
      else case to_datetime_rows parse (rows df) of
             Inl e \<Rightarrow> Inl e
           | Inr rs \<Rightarrow> Inr (df\<lparr>rows := rs\<rparr>))"

text \<open>
  Line 50 and line 78: \<^verbatim>\<open>df.dropna(subset=['latitude', 'longitude'])\<close>. pandas
  raises \<^verbatim>\<open>KeyError\<close> with the list of the names of the subset that are not
  columns.
\<close>

definition dropna_lat_lon :: "dataframe \<Rightarrow> error + dataframe" where
  "dropna_lat_lon df =
     (let missing = filter (\<lambda>c. c \<notin> set (columns df)) [''latitude'', ''longitude'']
      in if missing \<noteq> [] then Inl (KeyError missing)
         else Inr (df\<lparr>rows := filter (\<lambda>r. latitude r \<noteq> None \<and> longitude r \<noteq> None) (rows df)\<rparr>))"

text \<open>Line 51 and line 79: \<^verbatim>\<open>df[(df['latitude'] != 0) & (df['longitude'] != 0)]\<close>.\<close>

definition nonzero_lat_lon :: "dataframe \<Rightarrow> dataframe" where
  "nonzero_lat_lon df =
     boolean_index df
       (mask_and (col_ne (map latitude (rows df)) 0) (col_ne (map longitude (rows df)) 0))"

subsection \<open>load_data (lines 41 to 62)\<close>

text \<open>
  The argument is the content of \<^verbatim>\<open>arrests.csv\<close> as \<^verbatim>\<open>pd.read_csv\<close> returns it,
  \<open>None\<close> when the file does not exist. \<^verbatim>\<open>FileNotFoundError\<close> is the only
  exception the function catches, returning \<^verbatim>\<open>None\<close>; every other exception
  leaves the function.
\<close>

definition load_data :: "(string \<Rightarrow> timestamp option) \<Rightarrow> dataframe option \<Rightarrow> error + dataframe option" where
  "load_data parse file =
     (case file of
        None \<Rightarrow> Inr None
      | Some df \<Rightarrow>
          (case parse_arrest_date parse df of
             Inl e \<Rightarrow> Inl e
           | Inr df \<Rightarrow>
               (case dropna_lat_lon df of
                  Inl e \<Rightarrow> Inl e
                | Inr df \<Rightarrow> Inr (Some (extract_time_features (nonzero_lat_lon df))))))"

subsection \<open>The upload fallback (lines 75 to 85)\<close>

text \<open>
  Taken when \<^verbatim>\<open>load_data\<close> returned \<^verbatim>\<open>None\<close> and a file was uploaded: the same
  steps, under the test \<^verbatim>\<open>'arrest_date' in df.columns\<close>, and nothing otherwise.
\<close>

definition upload_fallback :: "(string \<Rightarrow> timestamp option) \<Rightarrow> dataframe \<Rightarrow> error + dataframe" where
  "upload_fallback parse df =
     (if ''arrest_date'' \<in> set (columns df) then
        (case parse_arrest_date parse df of
           Inl e \<Rightarrow> Inl e
         | Inr df \<Rightarrow>
             (case dropna_lat_lon df of
                Inl e \<Rightarrow> Inl e
              | Inr df \<Rightarrow> Inr (extract_time_features (nonzero_lat_lon df))))
      else Inr df)"

section \<open>The pipeline (lines 88 to 454)\<close>

subsection \<open>Series operations of pandas\<close>

text \<open>
  \<^verbatim>\<open>value_counts()\<close>, \<^verbatim>\<open>mode()\<close> and \<^verbatim>\<open>groupby(...).size()\<close> leave NaN out.
  \<^verbatim>\<open>unique()\<close> lists the values in the order of their first appearance.
  \<^verbatim>\<open>value_counts()\<close> orders by falling count (the order among equal counts is
  not used by anything below), \<^verbatim>\<open>sort_index()\<close> orders by the key.
  \<^verbatim>\<open>mode()\<close> returns every value of the greatest count, sorted ascending.
  \<^verbatim>\<open>groupby\<close> sorts the groups by their key.
\<close>

fun dropna :: "'a option list \<Rightarrow> 'a list" where
  "dropna [] = []"
| "dropna (None # xs) = dropna xs"
| "dropna (Some x # xs) = x # dropna xs"

definition unique :: "'a list \<Rightarrow> 'a list" where
  "unique xs = rev (remdups (rev xs))"

definition value_counts :: "'a option list \<Rightarrow> ('a \<times> nat) list" where
  "value_counts col =
     (let vs = dropna col
      in sort_key (\<lambda>p. - int (snd p)) (map (\<lambda>v. (v, count_list vs v)) (unique vs)))"

definition sort_index :: "('a::linorder \<times> nat) list \<Rightarrow> ('a \<times> nat) list" where
  "sort_index cs = sort_key fst cs"

definition mode :: "'a::linorder option list \<Rightarrow> 'a list" where
  "mode col =
     (let vs = dropna col; ks = unique vs
      in if ks = [] then []
         else sort (filter (\<lambda>v. count_list vs v = Max (set (map (count_list vs) ks))) ks))"

definition groupby_size :: "'k::linorder option list \<Rightarrow> ('k \<times> nat) list" where
  "groupby_size keys =
     (let ks = dropna keys in map (\<lambda>k. (k, count_list ks k)) (sort (remdups ks)))"

subsection \<open>The filter (lines 164 to 169)\<close>

text \<open>
  The values of the sidebar: the selected crime types, the month of the slider,
  the year, and the selected boroughs. The boroughs on offer hold no NaN (line
  154). The crime types on offer are the sorted distinct values of the column
  (lines 102 and 103); they are texts here, as the categories of the
  specification's filter are.
\<close>

record filter_spec =
  selected_crimes :: "string list"
  selected_month :: int
  selected_year :: int
  selected_boroughs :: "string list"

definition filtered_df :: "dataframe \<Rightarrow> filter_spec \<Rightarrow> dataframe" where
  "filtered_df df spec =
     boolean_index df
       (mask_and
         (mask_and
           (mask_and
             (isin (map ofns_desc (rows df)) (selected_crimes spec))
             (col_eq (map month (rows df)) (selected_month spec)))
           (col_eq (map year (rows df)) (selected_year spec)))
         (isin (map arrest_boro (rows df)) (selected_boroughs spec)))"

subsection \<open>Top crime type (lines 196 to 199)\<close>

definition most_common_crime :: "dataframe \<Rightarrow> string list" where
  "most_common_crime fdf = mode (map ofns_desc (rows fdf))"

definition top_crime_type :: "dataframe \<Rightarrow> string" where
  "top_crime_type fdf = (case most_common_crime fdf of [] \<Rightarrow> ''N/A'' | c # _ \<Rightarrow> c)"

subsection \<open>Counts (lines 382, 392, 404) and the monthly trend (lines 415 to 421)\<close>

definition crime_counts :: "dataframe \<Rightarrow> (string \<times> nat) list" where
  "crime_counts fdf = value_counts (map ofns_desc (rows fdf))"

definition hourly_counts :: "dataframe \<Rightarrow> (int \<times> nat) list" where
  "hourly_counts fdf = sort_index (value_counts (map hour (rows fdf)))"

definition borough_counts :: "dataframe \<Rightarrow> (string \<times> nat) list" where
  "borough_counts fdf = value_counts (map arrest_boro (rows fdf))"

definition month_key :: "row \<Rightarrow> (int \<times> string) option" where
  "month_key r =
     (case month r of
        None \<Rightarrow> None
      | Some m \<Rightarrow> (case month_name r of None \<Rightarrow> None | Some n \<Rightarrow> Some (m, n)))"

text \<open>
  Lines 417 to 421 stand in the block of line 206, \<^verbatim>\<open>if not filtered_df.empty\<close>, and
  under the checkbox of line 415, here \<open>show_trend\<close>. For an empty subset, or with
  the box not ticked, the script computes no trend: \<open>None\<close>. The masks of the trend
  are those of the filter without the month.
\<close>

definition monthly_data :: "dataframe \<Rightarrow> filter_spec \<Rightarrow> bool \<Rightarrow> (int \<times> string \<times> nat) list option" where
  "monthly_data df spec show_trend =
     (if rows (filtered_df df spec) \<noteq> [] then
        (if show_trend then
           Some (map (\<lambda>((m, n), c). (m, n, c))
             (groupby_size
               (map month_key
                 (rows
                   (boolean_index df
                     (mask_and
                       (mask_and
                         (isin (map ofns_desc (rows df)) (selected_crimes spec))
                         (col_eq (map year (rows df)) (selected_year spec)))
                       (isin (map arrest_boro (rows df)) (selected_boroughs spec))))))))
         else None)
      else None)"

subsection \<open>Metrics and charts of one run (lines 88, 164 to 201, 206, 264 to 421)\<close>

text \<open>
  What the script computes from the table and the values of the sidebar, or the
  exception that ends the run. Nothing is computed for an empty table (line 88).
  The filter reads the columns \<^verbatim>\<open>ofns_desc\<close>, \<^verbatim>\<open>month\<close>, \<^verbatim>\<open>year\<close> and
  \<^verbatim>\<open>arrest_boro\<close>, in this order (lines 165 to 168; the sidebar has read them in the
  same order at lines 102, 128, 141 and 153): the first that is not a column raises
  \<^verbatim>\<open>KeyError\<close>. The number of arrests (line 177) and the top crime type (line 199)
  are shown for every subset. The block of line 206 runs for a subset that is not
  empty: it reads \<^verbatim>\<open>latitude\<close> and \<^verbatim>\<open>longitude\<close> for the map (lines 264 and 265),
  \<^verbatim>\<open>hour\<close> (line 392) and, with the box of line 415 ticked, \<^verbatim>\<open>month_name\<close>
  (line 421), and computes the counts by crime type (line 382) and by hour (line
  392), the counts by borough when more than one borough is selected (lines 402 to
  404), and the trend. For an empty subset the script shows a warning (line 442)
  and none of these.
\<close>

record analytics =
  crime_chart :: "(string \<times> nat) list"
  hourly_chart :: "(int \<times> nat) list"
  borough_chart :: "(string \<times> nat) list option"
  trend_chart :: "(int \<times> string \<times> nat) list option"

record dashboard =
  total_arrests :: nat
  top_crime :: string
  charts :: "analytics option"

definition first_missing :: "dataframe \<Rightarrow> string list \<Rightarrow> string option" where
  "first_missing df names = find (\<lambda>c. c \<notin> set (columns df)) names"

definition pipeline :: "dataframe \<Rightarrow> filter_spec \<Rightarrow> bool \<Rightarrow> error + dashboard option" where
  "pipeline df spec show_trend =
     (if rows df = [] then Inr None
      else
        (case first_missing df [''ofns_desc'', ''month'', ''year'', ''arrest_boro''] of
           Some c \<Rightarrow> Inl (KeyError [c])
         | None \<Rightarrow>
             (let fdf = filtered_df df spec
              in if rows fdf \<noteq> [] then
                   (case first_missing df
                           ([''latitude'', ''longitude'', ''hour''] @
                            (if show_trend then [''month_name''] else [])) of
                      Some c \<Rightarrow> Inl (KeyError [c])
                    | None \<Rightarrow>
                        Inr (Some
                          \<lparr>total_arrests = length (rows fdf),
                           top_crime = top_crime_type fdf,
                           charts = Some
                             \<lparr>crime_chart = crime_counts fdf,
                              hourly_chart = hourly_counts fdf,
                              borough_chart =
                                (if length (selected_boroughs spec) > 1
                                 then Some (borough_counts fdf) else None),
                              trend_chart = monthly_data df spec show_trend\<rparr>\<rparr>))
                 else
                   Inr (Some
                     \<lparr>total_arrests = length (rows fdf),
                      top_crime = top_crime_type fdf,
                      charts = None\<rparr>))))"

subsection \<open>Colours of the map (lines 208 to 256)\<close>

text \<open>
  \<^verbatim>\<open>color_map\<close> gives the crime types of the subset, in the order of
  \<^verbatim>\<open>unique()\<close>, the twelve standard colours in turn. \<^verbatim>\<open>color_to_rgb\<close> is called
  on a value of \<^verbatim>\<open>color_map\<close> or on \<^verbatim>\<open>'red'\<close> only, so on one of the standard
  colours (lemma \<open>color_map_values\<close> below). None of these names starts with
  \<^verbatim>\<open>#\<close> or \<^verbatim>\<open>rgb\<close> (lemma \<open>color_names_plain\<close>), so the call takes the
  branch of the named colours, the one modelled here:
  \<^verbatim>\<open>color_dict.get(color.lower(), [255, 0, 0])\<close>. \<open>lower\<close> maps the ASCII
  capitals to small letters, which is what \<^verbatim>\<open>str.lower\<close> does on these names.
\<close>

definition standard_colors :: "string list" where
  "standard_colors =
     [''red'', ''blue'', ''green'', ''purple'', ''orange'', ''brown'',
      ''pink'', ''gray'', ''olive'', ''cyan'', ''yellow'', ''magenta'']"

definition color_dict :: "(string \<times> nat list) list" where
  "color_dict =
     [(''red'', [255, 0, 0]), (''blue'', [0, 0, 255]), (''green'', [0, 255, 0]),
      (''purple'', [128, 0, 128]), (''orange'', [255, 165, 0]), (''brown'', [165, 42, 42]),
      (''pink'', [255, 192, 203]), (''gray'', [128, 128, 128]), (''olive'', [128, 128, 0]),
      (''cyan'', [0, 255, 255]), (''yellow'', [255, 255, 0]), (''magenta'', [255, 0, 255])]"

definition lower :: "string \<Rightarrow> string" where
  "lower s =
     map (\<lambda>c. case map_of (zip ''ABCDEFGHIJKLMNOPQRSTUVWXYZ'' ''abcdefghijklmnopqrstuvwxyz'') c of
                 None \<Rightarrow> c | Some l \<Rightarrow> l) s"

definition color_to_rgb :: "string \<Rightarrow> nat list" where
  "color_to_rgb c = (case map_of color_dict (lower c) of None \<Rightarrow> [255, 0, 0] | Some rgb \<Rightarrow> rgb)"

definition color_map :: "string option list \<Rightarrow> (string option \<times> string) list" where
  "color_map unique_crimes =
     zip unique_crimes
       (map (\<lambda>i. standard_colors ! (i mod length standard_colors)) [0..<length unique_crimes])"

definition add_color_column :: "dataframe \<Rightarrow> dataframe" where
  "add_color_column fdf =
     (let cm = color_map (unique (map ofns_desc (rows fdf)))
      in assign_column ''color''
           (\<lambda>r. r\<lparr>color := Some (color_to_rgb
                     (case map_of cm (ofns_desc r) of None \<Rightarrow> ''red'' | Some c \<Rightarrow> c))\<rparr>)
           fdf)"

subsection \<open>Objects of a run of the script\<close>

text \<open>
  The data frames of a session live in a store, each at its own address. The
  table \<^verbatim>\<open>df\<close> is at the address the cached \<^verbatim>\<open>load_data\<close> returned.
  \<^verbatim>\<open>df[...].copy()\<close> creates a new object; \<^verbatim>\<open>filtered_df['color'] = ...\<close> is the
  one statement of the script that writes into an existing data frame, and it
  writes into the object \<^verbatim>\<open>filtered_df\<close> names. Every other statement of the
  script reads data frames, or builds new values that it hands to the widgets.
\<close>

type_synonym addr = nat

record session =
  heap :: "addr \<Rightarrow> dataframe option"
  fresh :: addr

definition new_object :: "dataframe \<Rightarrow> session \<Rightarrow> addr \<times> session" where
  "new_object d s = (fresh s, s\<lparr>heap := (heap s)(fresh s \<mapsto> d), fresh := Suc (fresh s)\<rparr>)"

definition update_object :: "addr \<Rightarrow> (dataframe \<Rightarrow> dataframe) \<Rightarrow> session \<Rightarrow> session" where
  "update_object a f s = s\<lparr>heap := (heap s)(a := map_option f (heap s a))\<rparr>"

text \<open>
  One run of the script from line 88 on, for the table at address \<open>a\<close> and the
  values the sidebar holds: nothing when the table is empty (line 88), otherwise
  the filter (lines 164 to 169) and, when the subset is not empty (line 206), the
  colour column (lines 254 to 256). The result is the store after the run and the
  address of \<^verbatim>\<open>filtered_df\<close>.
\<close>

definition run_script :: "addr \<Rightarrow> filter_spec \<Rightarrow> session \<Rightarrow> session \<times> addr option" where
  "run_script a spec s =
     (case heap s a of
        None \<Rightarrow> (s, None)
      | Some df \<Rightarrow>
          if rows df = [] then (s, None)
          else
            (let (b, s) = new_object (filtered_df df spec) s;
                 s = (case heap s b of
                        None \<Rightarrow> s
                      | Some fdf \<Rightarrow> if rows fdf \<noteq> [] then update_object b add_color_column s else s)
             in (s, Some b)))"

text \<open>Streamlit runs the script again at every interaction, here one per filter.\<close>

definition run_session :: "addr \<Rightarrow> filter_spec list \<Rightarrow> session \<Rightarrow> session" where
  "run_session a specs s = fold (\<lambda>spec s. fst (run_script a spec s)) specs s"

section \<open>Specification-side definitions\<close>

text \<open>
  The filter predicate in the words of the specification: the category is one of
  the categories, the month and the year are those of the filter, and the region
  is one of the regions.
\<close>

definition passes :: "filter_spec \<Rightarrow> row \<Rightarrow> bool" where
  "passes spec r =
     (ofns_desc r \<in> Some ` set (selected_crimes spec) \<and>
      month r = Some (selected_month spec) \<and>
      year r = Some (selected_year spec) \<and>
      arrest_boro r \<in> Some ` set (selected_boroughs spec))"

text \<open>
  What preprocessing makes of one row that it keeps: the parsed date, then the five
  time features at once. A row is kept when both coordinates are there and neither
  is zero. \<open>dates_parse\<close> says that \<^verbatim>\<open>pd.to_datetime\<close> raises on no row.
\<close>

definition stamp_row :: "(string \<Rightarrow> timestamp option) \<Rightarrow> row \<Rightarrow> row" where
  "stamp_row parse r =
     (case to_datetime parse (arrest_date r) of Inl e \<Rightarrow> r | Inr d \<Rightarrow> r\<lparr>arrest_date := d\<rparr>)"

definition time_features :: "row \<Rightarrow> row" where
  "time_features r =
     r\<lparr>year := map_option ts_year (stamp_of (arrest_date r)),
       month := map_option ts_month (stamp_of (arrest_date r)),
       month_name := map_option dt_month_name (stamp_of (arrest_date r)),
       day_of_week := map_option dt_day_name (stamp_of (arrest_date r)),
       hour := map_option ts_hour (stamp_of (arrest_date r))\<rparr>"

definition dates_parse :: "(string \<Rightarrow> timestamp option) \<Rightarrow> row list \<Rightarrow> bool" where
  "dates_parse parse rs =
     list_all (\<lambda>r. case arrest_date r of Text s \<Rightarrow> parse s \<noteq> None | _ \<Rightarrow> True) rs"

definition usable_coordinates :: "row \<Rightarrow> bool" where
  "usable_coordinates r =
     (latitude r \<noteq> None \<and> longitude r \<noteq> None \<and> latitude r \<noteq> Some 0 \<and> longitude r \<noteq> Some 0)"

subsection \<open>Example data\<close>

definition demo_parse :: "string \<Rightarrow> timestamp option" where
  "demo_parse s =
     (if s = ''2020-01-01 13:05:00'' then
        Some \<lparr>ts_year = 2020, ts_month = 1, ts_day = 1, ts_hour = 13, ts_minute = 5, ts_second = 0\<rparr>
      else if s = ''2020-02-29 08:00:00'' then
        Some \<lparr>ts_year = 2020, ts_month = 2, ts_day = 29, ts_hour = 8, ts_minute = 0, ts_second = 0\<rparr>
      else None)"

definition raw_row :: "string \<Rightarrow> real option \<Rightarrow> real option \<Rightarrow> string option \<Rightarrow> string option \<Rightarrow> row" where
  "raw_row d la lo c b =
     \<lparr>arrest_date = Text d, latitude = la, longitude = lo, ofns_desc = c, arrest_boro = b,
      arrest_precinct = None, year = None, month = None, month_name = None,
      day_of_week = None, hour = None, color = None\<rparr>"

definition demo_columns :: "string list" where
  "demo_columns = [''arrest_date'', ''latitude'', ''longitude'', ''ofns_desc'', ''arrest_boro'']"

definition demo_rows :: "row list" where
  "demo_rows =
     [raw_row ''2020-01-01 13:05:00'' (Some 40) (Some (-74)) (Some ''ROBBERY'') (Some ''K''),
      raw_row ''2020-01-01 13:05:00'' (Some 0) (Some (-74)) (Some ''ROBBERY'') (Some ''K''),
      raw_row ''2020-01-01 13:05:00'' None (Some (-74)) (Some ''ROBBERY'') (Some ''K''),
      raw_row ''2020-01-01 13:05:00'' (Some 41) (Some (-73)) (Some ''ASSAULT'') (Some ''M''),
      raw_row ''2020-01-01 13:05:00'' (Some 40) (Some (-74)) (Some ''ROBBERY'') (Some ''M''),
      raw_row ''2020-01-01 13:05:00'' (Some 41) (Some (-73)) (Some ''ASSAULT'') (Some ''K''),
      raw_row ''2020-02-29 08:00:00'' (Some 41) (Some (-73)) (Some ''THEFT-FRAUD'') (Some ''M'')]"

definition demo_source :: dataframe where
  "demo_source = \<lparr>columns = demo_columns, rows = demo_rows\<rparr>"

definition loaded_row :: "int \<Rightarrow> string option \<Rightarrow> string option \<Rightarrow> row" where
  "loaded_row m c b =
     \<lparr>arrest_date =
        Stamp (if m = 1
               then \<lparr>ts_year = 2020, ts_month = 1, ts_day = 1, ts_hour = 13, ts_minute = 5, ts_second = 0\<rparr>
               else \<lparr>ts_year = 2020, ts_month = 2, ts_day = 29, ts_hour = 8, ts_minute = 0, ts_second = 0\<rparr>),
      latitude = Some (if c = Some ''ROBBERY'' then 40 else 41),
      longitude = Some (if c = Some ''ROBBERY'' then - 74 else - 73),
      ofns_desc = c, arrest_boro = b, arrest_precinct = None,
      year = Some 2020, month = Some m,
      month_name = Some (if m = 1 then ''January'' else ''February''),
      day_of_week = Some (if m = 1 then ''Wednesday'' else ''Saturday''),
      hour = Some (if m = 1 then 13 else 8), color = None\<rparr>"

definition demo_table :: dataframe where
  "demo_table =
     \<lparr>columns = demo_columns @ [''year'', ''month'', ''month_name'', ''day_of_week'', ''hour''],
      rows = [loaded_row 1 (Some ''ROBBERY'') (Some ''K''),
              loaded_row 1 (Some ''ASSAULT'') (Some ''M''),
              loaded_row 1 (Some ''ROBBERY'') (Some ''M''),
              loaded_row 1 (Some ''ASSAULT'') (Some ''K''),
              loaded_row 2 (Some ''THEFT-FRAUD'') (Some ''M'')]\<rparr>"

definition demo_spec :: "int \<Rightarrow> filter_spec" where
  "demo_spec m =
     \<lparr>selected_crimes = [''ROBBERY'', ''ASSAULT'', ''THEFT-FRAUD''], selected_month = m,
      selected_year = 2020, selected_boroughs = [''K'', ''M'']\<rparr>"

definition demo_session :: session where
  "demo_session = \<lparr>heap = (\<lambda>a. None)(0 := Some demo_table), fresh = 1\<rparr>"

definition demo_upload :: dataframe where
  "demo_upload =
     \<lparr>columns = [''latitude'', ''longitude'', ''ofns_desc'', ''arrest_boro''],
      rows = [raw_row '''' None (Some (-74)) (Some ''ROBBERY'') (Some ''K'')\<lparr>arrest_date := NaT\<rparr>,
              raw_row '''' (Some 0) (Some 0) (Some ''ROBBERY'') (Some ''K'')\<lparr>arrest_date := NaT\<rparr>]\<rparr>"

definition theft_spec :: "int \<Rightarrow> filter_spec" where
  "theft_spec m =
     \<lparr>selected_crimes = [''THEFT-FRAUD''], selected_month = m,
      selected_year = 2020, selected_boroughs = [''K'', ''M'']\<rparr>"

text \<open>
  An upload without the date column that brings columns \<^verbatim>\<open>year\<close>, \<^verbatim>\<open>month\<close> and
  \<^verbatim>\<open>hour\<close> of its own, the hour of its one row left blank.
\<close>

definition blank_hour_upload :: dataframe where
  "blank_hour_upload =
     \<lparr>columns = [''latitude'', ''longitude'', ''ofns_desc'', ''arrest_boro'', ''year'', ''month'',
                 ''hour''],
      rows = [\<lparr>arrest_date = NaT, latitude = Some 40, longitude = Some (- 74),
               ofns_desc = Some ''ROBBERY'', arrest_boro = Some ''K'', arrest_precinct = None,
               year = Some 2020, month = Some 1, month_name = None, day_of_week = None,
               hour = None, color = None\<rparr>]\<rparr>"



section \<open>Masks and selections\<close>

lemma select_by_mask: "map fst (filter snd (zip xs (map P xs))) = filter P xs"
  by (induction xs) auto

lemma rows_boolean_index_map: "rows (boolean_index df (map P (rows df))) = filter P (rows df)"
  by (simp add: boolean_index_def select_by_mask)

lemma columns_boolean_index: "columns (boolean_index df keep) = columns df"
  by (simp add: boolean_index_def)

lemma mask_and_map: "mask_and (map P xs) (map Q xs) = map (\<lambda>x. P x \<and> Q x) xs"
  by (induction xs) (auto simp: mask_and_def)

lemma col_ne_map: "col_ne (map f xs) v = map (\<lambda>x. f x \<noteq> Some v) xs"
  by (simp add: col_ne_def)

lemma col_eq_map: "col_eq (map f xs) v = map (\<lambda>x. f x = Some v) xs"
  by (simp add: col_eq_def)

lemma isin_map: "isin (map f xs) vs = map (\<lambda>x. f x \<in> Some ` set vs) xs"
  by (auto simp: isin_def split: option.splits)

section \<open>The filter\<close>

lemma rows_filtered_df: "rows (filtered_df df spec) = filter (passes spec) (rows df)"
  unfolding filtered_df_def isin_map col_eq_map mask_and_map rows_boolean_index_map
  by (rule filter_cong) (auto simp: passes_def)

lemma columns_filtered_df: "columns (filtered_df df spec) = columns df"
  by (simp add: filtered_df_def columns_boolean_index)

text \<open>
  C1. For every table and every filter, the rows of \<open>filtered_df\<close> are the rows of
  the table that satisfy the four predicates together (category among the selected
  ones, month and year equal to the selected ones, borough among the selected ones),
  in the order of the table: the four masks of the code, joined by \<^verbatim>\<open>&\<close>, select
  what the conjunctive predicate \<open>passes\<close> of the specification selects. Every row of
  the result passes, and every row of the table that is not in the result fails one
  of the four predicates.
\<close>

theorem filtered_df_exact:
  "rows (filtered_df df spec) = filter (passes spec) (rows df) \<and>
   subseq (rows (filtered_df df spec)) (rows df) \<and>
   set (rows (filtered_df df spec)) = {r \<in> set (rows df). passes spec r} \<and>
   set (rows df) - set (rows (filtered_df df spec)) = {r \<in> set (rows df). \<not> passes spec r}"
  by (auto simp: rows_filtered_df)

text \<open>
  C8. The filter is idempotent: filtering the subset again with the same filter
  returns the subset, header and rows.
\<close>

theorem filtered_df_idempotent: "filtered_df (filtered_df df spec) spec = filtered_df df spec"
proof -
  have "rows (filtered_df (filtered_df df spec) spec) = rows (filtered_df df spec)"
    by (simp add: rows_filtered_df)
  moreover have "columns (filtered_df (filtered_df df spec) spec) = columns (filtered_df df spec)"
    by (simp add: columns_filtered_df)
  ultimately show ?thesis by simp
qed

section \<open>Loading\<close>

lemma rows_nonzero_lat_lon:
  "rows (nonzero_lat_lon df) =
     filter (\<lambda>r. latitude r \<noteq> Some 0 \<and> longitude r \<noteq> Some 0) (rows df)"
  by (simp add: nonzero_lat_lon_def col_ne_map mask_and_map rows_boolean_index_map)

lemma rows_assign_column: "rows (assign_column name f df) = map f (rows df)"
  by (simp add: assign_column_def)

lemma rows_extract_time_features: "rows (extract_time_features df) = map time_features (rows df)"
  by (simp add: extract_time_features_def Let_def rows_assign_column time_features_def)

lemma to_datetime_rows_ok:
  "dates_parse parse rs \<Longrightarrow> to_datetime_rows parse rs = Inr (map (stamp_row parse) rs)"
  by (induction rs)
    (auto simp: dates_parse_def stamp_row_def to_datetime_def split: date_cell.splits)

lemma stamp_row_coords [simp]:
  "latitude (stamp_row parse r) = latitude r" "longitude (stamp_row parse r) = longitude r"
  by (auto simp: stamp_row_def split: sum.splits)

lemma load_data_rows:
  assumes "''arrest_date'' \<in> set (columns df)" "''latitude'' \<in> set (columns df)"
    "''longitude'' \<in> set (columns df)" "dates_parse parse (rows df)"
  shows "\<exists>out. load_data parse (Some df) = Inr (Some out) \<and>
           rows out = map (time_features \<circ> stamp_row parse) (filter usable_coordinates (rows df))"
  using assms
  by (auto simp: load_data_def parse_arrest_date_def to_datetime_rows_ok dropna_lat_lon_def
      rows_extract_time_features rows_nonzero_lat_lon filter_map o_def usable_coordinates_def
      cong: filter_cong)

lemma demo_dates_parse: "dates_parse demo_parse demo_rows"
  by (simp add: dates_parse_def demo_rows_def raw_row_def demo_parse_def)

lemma demo_load: "load_data demo_parse (Some demo_source) = Inr (Some demo_table)"
  by (simp add: load_data_def parse_arrest_date_def dropna_lat_lon_def nonzero_lat_lon_def
      extract_time_features_def assign_column_def boolean_index_def mask_and_def col_ne_def
      demo_source_def demo_columns_def demo_rows_def raw_row_def demo_table_def loaded_row_def
      to_datetime_def demo_parse_def stamp_of_def dt_month_name_def calendar_month_name_def
      dt_day_name_def weekday_def Let_def)

text \<open>
  C2, as the code has it. When the source has the three columns that preprocessing
  reads and every date parses, \<open>load_data\<close> returns a table whose rows are the
  preprocessed rows of exactly those rows of the source, in their order, whose
  latitude and longitude are both there and both different from zero. So a row is
  dropped if and only if its latitude is null, or its longitude is null, or its
  latitude is zero, or its longitude is zero; a row with one zero coordinate is
  dropped.
\<close>

theorem load_data_drops_unusable:
  assumes "''arrest_date'' \<in> set (columns df)" "''latitude'' \<in> set (columns df)"
    "''longitude'' \<in> set (columns df)" "dates_parse parse (rows df)"
  shows "\<exists>out. load_data parse (Some df) = Inr (Some out) \<and>
           rows out =
             map (time_features \<circ> stamp_row parse)
               (filter (\<lambda>r. \<not> (latitude r = None \<or> longitude r = None \<or>
                                latitude r = Some 0 \<or> longitude r = Some 0)) (rows df))"
proof -
  have "usable_coordinates =
        (\<lambda>r. \<not> (latitude r = None \<or> longitude r = None \<or> latitude r = Some 0 \<or> longitude r = Some 0))"
    by (auto simp: usable_coordinates_def fun_eq_iff)
  then show ?thesis using load_data_rows [OF assms] by simp
qed

theorem load_data_drops_unusable_witness:
  "''arrest_date'' \<in> set (columns demo_source) \<and> ''latitude'' \<in> set (columns demo_source) \<and>
   ''longitude'' \<in> set (columns demo_source) \<and> dates_parse demo_parse (rows demo_source) \<and>
   (\<exists>out. load_data demo_parse (Some demo_source) = Inr (Some out) \<and>
      rows out = map (time_features \<circ> stamp_row demo_parse)
                   [demo_rows ! 0, demo_rows ! 3, demo_rows ! 4, demo_rows ! 5, demo_rows ! 6])"
proof -
  have cols: "''arrest_date'' \<in> set (columns demo_source)" "''latitude'' \<in> set (columns demo_source)"
    "''longitude'' \<in> set (columns demo_source)"
    by (simp_all add: demo_source_def demo_columns_def)
  have dates: "dates_parse demo_parse (rows demo_source)"
    by (simp add: demo_source_def demo_dates_parse)
  have "filter (\<lambda>r. \<not> (latitude r = None \<or> longitude r = None \<or>
                        latitude r = Some 0 \<or> longitude r = Some 0)) (rows demo_source) =
        [demo_rows ! 0, demo_rows ! 3, demo_rows ! 4, demo_rows ! 5, demo_rows ! 6]"
    by (simp add: demo_source_def demo_rows_def raw_row_def)
  then show ?thesis
    using load_data_drops_unusable [OF cols dates] cols dates by simp
qed

text \<open>
  The claim C2 as stated fails: a source of one row whose latitude is zero and whose
  longitude is \<open>-74\<close> loads to a table of no rows.
\<close>

theorem one_zero_coordinate_is_dropped:
  "load_data demo_parse
     (Some \<lparr>columns = demo_columns,
            rows = [raw_row ''2020-01-01 13:05:00'' (Some 0) (Some (-74)) (Some ''ROBBERY'')
                      (Some ''K'')]\<rparr>) =
   Inr (Some \<lparr>columns = demo_columns @ [''year'', ''month'', ''month_name'', ''day_of_week'', ''hour''],
              rows = []\<rparr>)"
  by (simp add: load_data_def parse_arrest_date_def dropna_lat_lon_def nonzero_lat_lon_def
      extract_time_features_def assign_column_def boolean_index_def mask_and_def col_ne_def
      demo_columns_def raw_row_def to_datetime_def demo_parse_def Let_def)

text \<open>
  C7, as the code has it. \<open>load_data\<close> checks no schema. A source without the column
  \<^verbatim>\<open>arrest_date\<close> raises the \<^verbatim>\<open>KeyError\<close> of pandas for that name. A source that has
  it, with dates that parse, and lacks \<^verbatim>\<open>latitude\<close> or \<^verbatim>\<open>longitude\<close> raises the
  \<^verbatim>\<open>KeyError\<close> that lists those of the two that are missing. The error leaves
  \<open>load_data\<close>. A source that has these three columns and dates that parse loads,
  whether or not it has the columns of the category and of the borough.
\<close>

theorem load_data_missing_column:
  "(''arrest_date'' \<notin> set (columns df) \<longrightarrow>
      load_data parse (Some df) = Inl (KeyError [''arrest_date''])) \<and>
   (''arrest_date'' \<in> set (columns df) \<and> dates_parse parse (rows df) \<and>
    (''latitude'' \<notin> set (columns df) \<or> ''longitude'' \<notin> set (columns df)) \<longrightarrow>
      load_data parse (Some df) =
        Inl (KeyError (filter (\<lambda>c. c \<notin> set (columns df)) [''latitude'', ''longitude'']))) \<and>
   (''arrest_date'' \<in> set (columns df) \<and> dates_parse parse (rows df) \<and>
    ''latitude'' \<in> set (columns df) \<and> ''longitude'' \<in> set (columns df) \<longrightarrow>
      (\<exists>out. load_data parse (Some df) = Inr (Some out)))"
  by (auto simp: load_data_def parse_arrest_date_def to_datetime_rows_ok dropna_lat_lon_def)

theorem load_data_missing_column_witness:
  "load_data demo_parse (Some \<lparr>columns = [''latitude'', ''longitude'', ''ofns_desc'', ''arrest_boro''],
                               rows = demo_rows\<rparr>) =
     Inl (KeyError [''arrest_date'']) \<and>
   load_data demo_parse (Some \<lparr>columns = [''arrest_date'', ''longitude'', ''ofns_desc'', ''arrest_boro''],
                               rows = demo_rows\<rparr>) =
     Inl (KeyError [''latitude'']) \<and>
   (\<exists>out. load_data demo_parse (Some \<lparr>columns = [''arrest_date'', ''latitude'', ''longitude''],
                                       rows = demo_rows\<rparr>) = Inr (Some out))"
  using
    load_data_missing_column
      [of "\<lparr>columns = [''latitude'', ''longitude'', ''ofns_desc'', ''arrest_boro''], rows = demo_rows\<rparr>"
          demo_parse]
    load_data_missing_column
      [of "\<lparr>columns = [''arrest_date'', ''longitude'', ''ofns_desc'', ''arrest_boro''], rows = demo_rows\<rparr>"
          demo_parse]
    load_data_missing_column
      [of "\<lparr>columns = [''arrest_date'', ''latitude'', ''longitude''], rows = demo_rows\<rparr>" demo_parse]
    demo_dates_parse
  by simp

text \<open>
  The claim C7 as stated fails: a source that lacks the column of the category,
  \<^verbatim>\<open>ofns_desc\<close>, loads without any error.
\<close>

theorem missing_category_column_loads:
  "load_data demo_parse
     (Some \<lparr>columns = [''arrest_date'', ''latitude'', ''longitude'', ''arrest_boro''],
            rows = [raw_row ''2020-01-01 13:05:00'' (Some 41) (Some (-73)) None (Some ''K'')]\<rparr>) =
   Inr (Some \<lparr>columns = [''arrest_date'', ''latitude'', ''longitude'', ''arrest_boro'',
                          ''year'', ''month'', ''month_name'', ''day_of_week'', ''hour''],
              rows = [loaded_row 1 None (Some ''K'')]\<rparr>)"
  by (simp add: load_data_def parse_arrest_date_def dropna_lat_lon_def nonzero_lat_lon_def
      extract_time_features_def assign_column_def boolean_index_def mask_and_def col_ne_def
      raw_row_def loaded_row_def to_datetime_def demo_parse_def stamp_of_def dt_month_name_def
      calendar_month_name_def dt_day_name_def weekday_def Let_def)

text \<open>
  C10. On the upload path, a table without the column \<^verbatim>\<open>arrest_date\<close> is taken as
  it is: the same header, so no time feature is added, and the same rows, so the
  rows with a null or zero coordinate stay.
\<close>

theorem upload_without_arrest_date:
  "''arrest_date'' \<notin> set (columns df) \<Longrightarrow> upload_fallback parse df = Inr df"
  by (simp add: upload_fallback_def)

theorem upload_without_arrest_date_witness:
  "''arrest_date'' \<notin> set (columns demo_upload) \<and>
   upload_fallback demo_parse demo_upload = Inr demo_upload \<and>
   map latitude (rows demo_upload) = [None, Some 0] \<and>
   map longitude (rows demo_upload) = [Some (- 74), Some 0] \<and>
   map month (rows demo_upload) = [None, None] \<and>
   ''month'' \<notin> set (columns demo_upload)"
proof -
  have h: "''arrest_date'' \<notin> set (columns demo_upload)"
    by (simp add: demo_upload_def)
  show ?thesis
    using upload_without_arrest_date [OF h, of demo_parse] h
    by (simp add: demo_upload_def raw_row_def)
qed

section \<open>Counts\<close>

lemma set_unique [simp]: "set (unique xs) = set xs"
  by (simp add: unique_def)

lemma distinct_unique [simp]: "distinct (unique xs)"
  by (simp add: unique_def)

lemma sum_list_sort_key: "sum_list (map f (sort_key k xs)) = (sum_list (map f xs) :: nat)"
proof -
  have "mset (map f (sort_key k xs)) = mset (map f xs)" by simp
  then have "sum_mset (mset (map f (sort_key k xs))) = sum_mset (mset (map f xs))" by simp
  then show ?thesis by (simp only: sum_mset_sum_list)
qed

lemma sum_counts_unique: "sum_list (map (count_list vs) (unique vs)) = length vs"
  by (simp add: sum_list_distinct_conv_sum_set sum_count_set)

lemma sum_value_counts: "sum_list (map snd (value_counts col)) = length (dropna col)"
  by (simp add: value_counts_def Let_def sum_list_sort_key o_def sum_counts_unique)

lemma set_value_counts:
  "set (value_counts col) = (\<lambda>v. (v, count_list (dropna col) v)) ` set (dropna col)"
  by (simp add: value_counts_def Let_def)

lemma set_dropna: "set (dropna col) = {v. Some v \<in> set col}"
  by (induction col rule: dropna.induct) auto

lemma dropna_no_None: "None \<notin> set col \<Longrightarrow> length (dropna col) = length col"
  by (induction col rule: dropna.induct) auto

lemma sum_value_counts_full:
  "None \<notin> set col \<Longrightarrow> sum_list (map snd (value_counts col)) = length col"
  by (simp add: sum_value_counts dropna_no_None)

lemma load_data_features:
  "load_data parse file = Inr (Some df) \<Longrightarrow> \<exists>rs. rows df = map time_features rs"
  by (auto simp: load_data_def rows_extract_time_features split: option.splits sum.splits)

lemma upload_fallback_features:
  "''arrest_date'' \<in> set (columns up) \<Longrightarrow> upload_fallback parse up = Inr df \<Longrightarrow>
   \<exists>rs. rows df = map time_features rs"
  by (auto simp: upload_fallback_def rows_extract_time_features split: sum.splits)

lemma time_features_hour: "month (time_features r) \<noteq> None \<Longrightarrow> hour (time_features r) \<noteq> None"
  by (simp add: time_features_def)

lemma passes_not_None:
  "passes spec r \<Longrightarrow> ofns_desc r \<noteq> None \<and> arrest_boro r \<noteq> None \<and> month r \<noteq> None"
  by (auto simp: passes_def)

lemma counts_sum_aux:
  assumes "rows df = map time_features rs"
  shows "sum_list (map snd (crime_counts (filtered_df df spec))) = length (rows (filtered_df df spec))"
    and "sum_list (map snd (hourly_counts (filtered_df df spec))) = length (rows (filtered_df df spec))"
    and "sum_list (map snd (borough_counts (filtered_df df spec))) = length (rows (filtered_df df spec))"
proof -
  let ?sub = "rows (filtered_df df spec)"
  have p: "\<And>r. r \<in> set ?sub \<Longrightarrow> passes spec r \<and> r \<in> set (rows df)"
    by (simp add: rows_filtered_df)
  have "None \<notin> set (map ofns_desc ?sub)"
    using p passes_not_None by fastforce
  then show "sum_list (map snd (crime_counts (filtered_df df spec))) = length ?sub"
    using sum_value_counts_full by (fastforce simp: crime_counts_def)
  have "None \<notin> set (map arrest_boro ?sub)"
    using p passes_not_None by fastforce
  then show "sum_list (map snd (borough_counts (filtered_df df spec))) = length ?sub"
    using sum_value_counts_full by (fastforce simp: borough_counts_def)
  have "hour r \<noteq> None" if "r \<in> set ?sub" for r
  proof -
    from that p have "passes spec r" "r \<in> set (rows df)" by auto
    then obtain r0 where "r = time_features r0" using assms by auto
    moreover have "month r \<noteq> None" using \<open>passes spec r\<close> passes_not_None by blast
    ultimately show ?thesis using time_features_hour by blast
  qed
  then have "None \<notin> set (map hour ?sub)" by fastforce
  then have "sum_list (map snd (value_counts (map hour ?sub))) = length ?sub"
    using sum_value_counts_full by fastforce
  then show "sum_list (map snd (hourly_counts (filtered_df df spec))) = length ?sub"
    by (simp add: hourly_counts_def sort_index_def sum_list_sort_key)
qed

lemma demo_subset:
  "rows (filtered_df demo_table (demo_spec 1)) = take 4 (rows demo_table)"
  "rows (filtered_df demo_table (demo_spec 3)) = []"
  by (simp_all add: rows_filtered_df passes_def demo_table_def demo_spec_def loaded_row_def)

section \<open>An empty subset\<close>

lemma value_counts_Nil [simp]: "value_counts [] = []"
  by (simp add: value_counts_def unique_def)

lemma mode_Nil [simp]: "mode [] = []"
  by (simp add: mode_def unique_def)





text \<open>A run with a subset that is not empty, for comparison.\<close>

lemma demo_pipeline:
  "pipeline demo_table (demo_spec 1) True =
     Inr (Some \<lparr>total_arrests = 4, top_crime = ''ASSAULT'',
                charts = Some \<lparr>crime_chart = [(''ROBBERY'', 2), (''ASSAULT'', 2)],
                               hourly_chart = [(13, 4)],
                               borough_chart = Some [(''K'', 2), (''M'', 2)],
                               trend_chart = Some [(1, ''January'', 4), (2, ''February'', 1)]\<rparr>\<rparr>)"
  by code_simp

section \<open>The top crime type\<close>

lemma set_mode:
  assumes "dropna col \<noteq> []"
  shows "set (mode col) =
    {v \<in> set (dropna col).
       count_list (dropna col) v = Max (count_list (dropna col) ` set (dropna col))}"
proof -
  have "unique (dropna col) \<noteq> []"
    using assms by (metis set_unique set_empty)
  then show ?thesis by (auto simp: mode_def Let_def)
qed

lemma sorted_mode: "sorted (mode col)"
  by (simp add: mode_def Let_def)

lemma mode_not_Nil:
  assumes "dropna col \<noteq> []"
  shows "mode col \<noteq> []"
proof -
  let ?vs = "dropna col"
  have "finite (count_list ?vs ` set ?vs)" "count_list ?vs ` set ?vs \<noteq> {}"
    using assms by auto
  then have "Max (count_list ?vs ` set ?vs) \<in> count_list ?vs ` set ?vs"
    by (rule Max_in)
  then obtain v where "v \<in> set ?vs" "count_list ?vs v = Max (count_list ?vs ` set ?vs)"
    by auto
  then have "v \<in> set (mode col)" using assms by (simp add: set_mode)
  then show ?thesis by auto
qed

lemma mode_head:
  assumes "mode col = c # cs"
  shows "c \<in> set (dropna col)"
    and "\<And>v. v \<in> set (dropna col) \<Longrightarrow> count_list (dropna col) v \<le> count_list (dropna col) c"
    and "\<And>v. v \<in> set (dropna col) \<Longrightarrow>
           count_list (dropna col) v = count_list (dropna col) c \<Longrightarrow> c \<le> v"
proof -
  let ?vs = "dropna col"
  let ?M = "Max (count_list ?vs ` set ?vs)"
  have ne: "?vs \<noteq> []"
    using assms by (auto simp: mode_def Let_def unique_def)
  have "c \<in> set (mode col)" using assms by simp
  then have c: "c \<in> set ?vs" "count_list ?vs c = ?M"
    using ne by (simp_all add: set_mode)
  show "c \<in> set ?vs" by (rule c(1))
  show "count_list ?vs v \<le> count_list ?vs c" if "v \<in> set ?vs" for v
    using that c(2) by simp
  show "c \<le> v" if "v \<in> set ?vs" "count_list ?vs v = count_list ?vs c" for v
  proof -
    have "v \<in> set (mode col)" using that c(2) ne by (simp add: set_mode)
    moreover have "sorted (c # cs)" using sorted_mode [of col] assms by simp
    ultimately show ?thesis using assms by auto
  qed
qed

text \<open>
  C6. For a filtered subset that is not empty, the top crime type is a key of
  \<open>crime_counts\<close>; its count \<open>n\<close> is the greatest count there; and every key of
  the same count is greater or equal in the lexicographic order of strings
  (characters compared by their codes, as Python compares strings of ASCII
  characters). The order is the one in which \<^verbatim>\<open>mode()\<close> of pandas returns the
  modes, of which the script takes the first.
\<close>

theorem top_crime_type_is_least_maximal:
  assumes "rows (filtered_df df spec) \<noteq> []"
  shows "\<exists>n. (top_crime_type (filtered_df df spec), n) \<in> set (crime_counts (filtered_df df spec)) \<and>
           (\<forall>(c, k) \<in> set (crime_counts (filtered_df df spec)).
              k \<le> n \<and> (k = n \<longrightarrow> top_crime_type (filtered_df df spec) \<le> c))"
proof -
  let ?col = "map ofns_desc (rows (filtered_df df spec))"
  let ?vs = "dropna ?col"
  obtain r where r: "r \<in> set (rows (filtered_df df spec))"
    using assms by (meson last_in_set)
  then have "passes spec r" by (simp add: rows_filtered_df)
  then obtain v where "ofns_desc r = Some v" using passes_not_None by blast
  then have "v \<in> set ?vs" using r by (force simp: set_dropna)
  then have "?vs \<noteq> []" by auto
  then obtain c cs where m: "mode ?col = c # cs"
    using mode_not_Nil by (meson list.exhaust)
  then have top: "top_crime_type (filtered_df df spec) = c"
    by (simp add: top_crime_type_def most_common_crime_def)
  have "(c, count_list ?vs c) \<in> set (crime_counts (filtered_df df spec))"
    using mode_head(1) [OF m] by (simp add: crime_counts_def set_value_counts)
  moreover have "\<forall>(c', k) \<in> set (crime_counts (filtered_df df spec)).
      k \<le> count_list ?vs c \<and> (k = count_list ?vs c \<longrightarrow> c \<le> c')"
    using mode_head(2,3) [OF m] by (auto simp: crime_counts_def set_value_counts)
  ultimately show ?thesis unfolding top by blast
qed

lemma demo_crime_column:
  "map ofns_desc (rows (filtered_df demo_table (demo_spec 1))) =
     [Some ''ROBBERY'', Some ''ASSAULT'', Some ''ROBBERY'', Some ''ASSAULT'']"
  unfolding demo_subset(1) by (simp add: demo_table_def loaded_row_def)

lemma demo_mode:
  "mode [Some ''ROBBERY'', Some ''ASSAULT'', Some ''ROBBERY'', Some ''ASSAULT''] =
     [''ASSAULT'', ''ROBBERY'']"
  by code_simp

lemma demo_value_counts:
  "value_counts [Some ''ROBBERY'', Some ''ASSAULT'', Some ''ROBBERY'', Some ''ASSAULT''] =
     [(''ROBBERY'', 2), (''ASSAULT'', 2)]"
  by code_simp

lemma demo_top: "top_crime_type (filtered_df demo_table (demo_spec 1)) = ''ASSAULT''"
  by (simp add: top_crime_type_def most_common_crime_def demo_crime_column demo_mode)

lemma demo_crime_counts:
  "crime_counts (filtered_df demo_table (demo_spec 1)) = [(''ROBBERY'', 2), (''ASSAULT'', 2)]"
  by (simp add: crime_counts_def demo_crime_column demo_value_counts)

theorem top_crime_type_is_least_maximal_witness:
  "rows (filtered_df demo_table (demo_spec 1)) \<noteq> [] \<and>
   top_crime_type (filtered_df demo_table (demo_spec 1)) = ''ASSAULT'' \<and>
   crime_counts (filtered_df demo_table (demo_spec 1)) = [(''ROBBERY'', 2), (''ASSAULT'', 2)] \<and>
   (\<exists>n. (''ASSAULT'', n) \<in> set [(''ROBBERY'', 2), (''ASSAULT'', 2 :: nat)] \<and>
      (\<forall>(c, k) \<in> set [(''ROBBERY'', 2), (''ASSAULT'', 2)]. k \<le> n \<and> (k = n \<longrightarrow> ''ASSAULT'' \<le> c)))"
proof -
  have h: "rows (filtered_df demo_table (demo_spec 1)) \<noteq> []"
    unfolding demo_subset(1) by (simp add: demo_table_def)
  show ?thesis
    using top_crime_type_is_least_maximal [OF h] h demo_top demo_crime_counts
    by simp
qed

section \<open>Counts of the subset\<close>

lemma count_list_dropna_map:
  "count_list (dropna (map f rs)) k = length (filter (\<lambda>r. f r = Some k) rs)"
proof (induction rs)
  case Nil
  then show ?case by simp
next
  case (Cons r rs)
  then show ?case by (cases "f r") auto
qed

lemma length_dropna_map:
  "length (dropna (map f rs)) = length (filter (\<lambda>r. f r \<noteq> None) rs)"
proof (induction rs)
  case Nil
  then show ?case by simp
next
  case (Cons r rs)
  then show ?case by (cases "f r") auto
qed

lemma map_fst_tagged: "map fst (map (\<lambda>v. (v, c v)) us) = us"
  by (induction us) auto

lemma keys_value_counts: "mset (map fst (value_counts col)) = mset (unique (dropna col))"
proof -
  let ?xs = "map (\<lambda>v. (v, count_list (dropna col) v)) (unique (dropna col))"
  have "mset (value_counts col) = mset ?xs"
    by (simp add: value_counts_def Let_def)
  then have "image_mset fst (mset (value_counts col)) = image_mset fst (mset ?xs)"
    by (rule arg_cong)
  then have "mset (map fst (value_counts col)) = mset (map fst ?xs)"
    by (simp only: mset_map)
  then show ?thesis
    by (simp only: map_fst_tagged)
qed

lemma distinct_keys_value_counts: "distinct (map fst (value_counts col))"
  using keys_value_counts [of col] distinct_unique [of "dropna col"]
  by (metis mset_eq_imp_distinct_iff)

lemma distinct_keys_sort_index: "distinct (map fst (sort_index cs)) = distinct (map fst cs)"
proof -
  have "mset (map fst (sort_index cs)) = mset (map fst cs)"
    by (simp add: sort_index_def)
  then show ?thesis by (rule mset_eq_imp_distinct_iff)
qed

lemma value_counts_entry:
  "(k, n) \<in> set (value_counts (map f rs)) \<Longrightarrow> n = length (filter (\<lambda>r. f r = Some k) rs)"
  by (auto simp: set_value_counts count_list_dropna_map)

lemma sum_hourly_counts:
  "sum_list (map snd (hourly_counts fdf)) = length (filter (\<lambda>r. hour r \<noteq> None) (rows fdf))"
  by (simp add: hourly_counts_def sort_index_def sum_list_sort_key sum_value_counts
      length_dropna_map)

text \<open>
  C4, as the code has it. For every table and every filter, the counts of
  \<open>crime_counts\<close> and those of \<open>borough_counts\<close> add up to the number of rows of
  the filtered subset. The counts of \<open>hourly_counts\<close> add up to the number of rows
  of the subset that have an hour; these are all its rows when the table went
  through preprocessing (\<open>load_data\<close>, or the upload path with the date column),
  where the hour and the month come from the same time stamp. In each of the three
  the keys are distinct, and the count of a key is the number of rows of the subset
  with that key.
\<close>

theorem counts_of_subset:
  "sum_list (map snd (crime_counts (filtered_df df spec))) = length (rows (filtered_df df spec)) \<and>
   sum_list (map snd (borough_counts (filtered_df df spec))) = length (rows (filtered_df df spec)) \<and>
   sum_list (map snd (hourly_counts (filtered_df df spec))) =
     length (filter (\<lambda>r. hour r \<noteq> None) (rows (filtered_df df spec))) \<and>
   (load_data parse file = Inr (Some df) \<or>
    (''arrest_date'' \<in> set (columns up) \<and> upload_fallback parse up = Inr df) \<longrightarrow>
      sum_list (map snd (hourly_counts (filtered_df df spec))) = length (rows (filtered_df df spec))) \<and>
   distinct (map fst (crime_counts (filtered_df df spec))) \<and>
   distinct (map fst (hourly_counts (filtered_df df spec))) \<and>
   distinct (map fst (borough_counts (filtered_df df spec))) \<and>
   (\<forall>(k, n) \<in> set (crime_counts (filtered_df df spec)).
      n = length (filter (\<lambda>r. ofns_desc r = Some k) (rows (filtered_df df spec)))) \<and>
   (\<forall>(k, n) \<in> set (hourly_counts (filtered_df df spec)).
      n = length (filter (\<lambda>r. hour r = Some k) (rows (filtered_df df spec)))) \<and>
   (\<forall>(k, n) \<in> set (borough_counts (filtered_df df spec)).
      n = length (filter (\<lambda>r. arrest_boro r = Some k) (rows (filtered_df df spec))))"
proof -
  let ?sub = "filtered_df df spec"
  have p: "\<And>r. r \<in> set (rows ?sub) \<Longrightarrow> passes spec r"
    by (simp add: rows_filtered_df)
  have "None \<notin> set (map ofns_desc (rows ?sub))"
    using p passes_not_None by fastforce
  then have c: "sum_list (map snd (crime_counts ?sub)) = length (rows ?sub)"
    using sum_value_counts_full by (fastforce simp: crime_counts_def)
  have "None \<notin> set (map arrest_boro (rows ?sub))"
    using p passes_not_None by fastforce
  then have b: "sum_list (map snd (borough_counts ?sub)) = length (rows ?sub)"
    using sum_value_counts_full by (fastforce simp: borough_counts_def)
  have h: "sum_list (map snd (hourly_counts ?sub)) = length (rows ?sub)"
    if "load_data parse file = Inr (Some df) \<or>
        (''arrest_date'' \<in> set (columns up) \<and> upload_fallback parse up = Inr df)"
  proof -
    from that obtain rs where "rows df = map time_features rs"
      using load_data_features upload_fallback_features by blast
    then show ?thesis by (rule counts_sum_aux(2))
  qed
  have d: "distinct (map fst (crime_counts ?sub))" "distinct (map fst (hourly_counts ?sub))"
    "distinct (map fst (borough_counts ?sub))"
    by (simp_all add: crime_counts_def hourly_counts_def borough_counts_def
        distinct_keys_sort_index distinct_keys_value_counts)
  have e: "\<forall>(k, n) \<in> set (crime_counts ?sub). n = length (filter (\<lambda>r. ofns_desc r = Some k) (rows ?sub))"
    "\<forall>(k, n) \<in> set (hourly_counts ?sub). n = length (filter (\<lambda>r. hour r = Some k) (rows ?sub))"
    "\<forall>(k, n) \<in> set (borough_counts ?sub). n = length (filter (\<lambda>r. arrest_boro r = Some k) (rows ?sub))"
    using value_counts_entry
    by (fastforce simp: crime_counts_def hourly_counts_def borough_counts_def sort_index_def)+
  show ?thesis
    using c b h d e sum_hourly_counts [of ?sub] by blast
qed

lemma demo_hourly_counts: "hourly_counts (filtered_df demo_table (demo_spec 1)) = [(13, 4)]"
  by code_simp

lemma demo_borough_counts:
  "borough_counts (filtered_df demo_table (demo_spec 1)) = [(''K'', 2), (''M'', 2)]"
  by code_simp

theorem counts_of_subset_witness:
  "load_data demo_parse (Some demo_source) = Inr (Some demo_table) \<and>
   length (rows (filtered_df demo_table (demo_spec 1))) = 4 \<and>
   sum_list (map snd (crime_counts (filtered_df demo_table (demo_spec 1)))) = 4 \<and>
   sum_list (map snd (hourly_counts (filtered_df demo_table (demo_spec 1)))) = 4 \<and>
   sum_list (map snd (borough_counts (filtered_df demo_table (demo_spec 1)))) = 4 \<and>
   crime_counts (filtered_df demo_table (demo_spec 1)) = [(''ROBBERY'', 2), (''ASSAULT'', 2)] \<and>
   hourly_counts (filtered_df demo_table (demo_spec 1)) = [(13, 4)] \<and>
   borough_counts (filtered_df demo_table (demo_spec 1)) = [(''K'', 2), (''M'', 2)]"
proof -
  have n: "length (rows (filtered_df demo_table (demo_spec 1))) = 4"
    unfolding demo_subset(1) by (simp add: demo_table_def)
  from counts_of_subset [of demo_table "demo_spec 1" demo_parse "Some demo_source" demo_upload]
  have "sum_list (map snd (crime_counts (filtered_df demo_table (demo_spec 1)))) = 4"
    "sum_list (map snd (borough_counts (filtered_df demo_table (demo_spec 1)))) = 4"
    "sum_list (map snd (hourly_counts (filtered_df demo_table (demo_spec 1)))) = 4"
    using demo_load n by simp_all
  then show ?thesis
    using demo_load n demo_crime_counts demo_hourly_counts demo_borough_counts by simp
qed

text \<open>
  The claim C4 as stated fails for \<open>hourly_counts\<close>: the upload path takes a table
  without the date column as it is; its one row, with a year and a month of its own
  and a blank hour, passes the filter, and \<open>hourly_counts\<close> is empty.
\<close>

theorem blank_hour_is_not_counted:
  "''arrest_date'' \<notin> set (columns blank_hour_upload) \<and>
   upload_fallback demo_parse blank_hour_upload = Inr blank_hour_upload \<and>
   length (rows (filtered_df blank_hour_upload (demo_spec 1))) = 1 \<and>
   hourly_counts (filtered_df blank_hour_upload (demo_spec 1)) = [] \<and>
   sum_list (map snd (hourly_counts (filtered_df blank_hour_upload (demo_spec 1)))) = 0"
proof -
  have "rows (filtered_df blank_hour_upload (demo_spec 1)) = rows blank_hour_upload"
    by (simp add: rows_filtered_df passes_def blank_hour_upload_def demo_spec_def)
  then have "length (rows (filtered_df blank_hour_upload (demo_spec 1))) = 1"
    "hourly_counts (filtered_df blank_hour_upload (demo_spec 1)) = []"
    by (simp_all add: hourly_counts_def sort_index_def value_counts_def unique_def
        blank_hour_upload_def)
  moreover have "upload_fallback demo_parse blank_hour_upload = Inr blank_hour_upload"
    "''arrest_date'' \<notin> set (columns blank_hour_upload)"
    by (simp_all add: upload_fallback_def blank_hour_upload_def)
  ultimately show ?thesis by simp
qed

section \<open>The monthly trend\<close>

lemma demo_trend:
  "monthly_data demo_table (demo_spec 1) True = Some [(1, ''January'', 4), (2, ''February'', 1)]"
  "monthly_data demo_table (demo_spec 2) True = Some [(1, ''January'', 4), (2, ''February'', 1)]"
  by code_simp+

lemma theft_trend:
  "monthly_data demo_table (theft_spec 1) True = None"
  "monthly_data demo_table (theft_spec 2) True = Some [(2, ''February'', 1)]"
  by code_simp+

lemma demo_subset_2: "rows (filtered_df demo_table (demo_spec 2)) = drop 4 (rows demo_table)"
  by (simp add: rows_filtered_df passes_def demo_table_def demo_spec_def loaded_row_def)

text \<open>
  C3, as the code has it. The trend is computed in the block of line 206, so only
  for a filter whose own subset, selected by the month too, is not empty. Two
  filters with the same crime types, the same boroughs and the same year, whose
  subsets are both empty or both not empty, give the same trend (the same entries
  in the same order, or none for both); a filter whose subset is empty gives none.
\<close>

theorem monthly_data_same_when_shown:
  assumes "selected_crimes s1 = selected_crimes s2"
    and "selected_boroughs s1 = selected_boroughs s2"
    and "selected_year s1 = selected_year s2"
    and "rows (filtered_df df s1) = [] \<longleftrightarrow> rows (filtered_df df s2) = []"
  shows "monthly_data df s1 show_trend = monthly_data df s2 show_trend \<and>
         (rows (filtered_df df s1) = [] \<longrightarrow> monthly_data df s1 show_trend = None)"
  using assms by (simp add: monthly_data_def)

theorem monthly_data_same_when_shown_witness:
  "selected_crimes (demo_spec 1) = selected_crimes (demo_spec 2) \<and>
   selected_boroughs (demo_spec 1) = selected_boroughs (demo_spec 2) \<and>
   selected_year (demo_spec 1) = selected_year (demo_spec 2) \<and>
   selected_month (demo_spec 1) \<noteq> selected_month (demo_spec 2) \<and>
   rows (filtered_df demo_table (demo_spec 1)) \<noteq> [] \<and>
   rows (filtered_df demo_table (demo_spec 2)) \<noteq> [] \<and>
   monthly_data demo_table (demo_spec 1) True = monthly_data demo_table (demo_spec 2) True \<and>
   monthly_data demo_table (demo_spec 1) True = Some [(1, ''January'', 4), (2, ''February'', 1)]"
proof -
  have ne: "rows (filtered_df demo_table (demo_spec 1)) \<noteq> []"
    "rows (filtered_df demo_table (demo_spec 2)) \<noteq> []"
    unfolding demo_subset(1) demo_subset_2 by (simp_all add: demo_table_def)
  have agree: "selected_crimes (demo_spec 1) = selected_crimes (demo_spec 2)"
    "selected_boroughs (demo_spec 1) = selected_boroughs (demo_spec 2)"
    "selected_year (demo_spec 1) = selected_year (demo_spec 2)"
    "selected_month (demo_spec 1) \<noteq> selected_month (demo_spec 2)"
    by (simp_all add: demo_spec_def)
  have "rows (filtered_df demo_table (demo_spec 1)) = [] \<longleftrightarrow>
        rows (filtered_df demo_table (demo_spec 2)) = []"
    using ne by simp
  from monthly_data_same_when_shown [OF agree(1-3) this, of True] ne agree demo_trend(1)
  show ?thesis by simp
qed

text \<open>
  The claim C3 as stated fails: with \<^verbatim>\<open>THEFT-FRAUD\<close> as the only crime type, the
  script computes no trend for month 1, whose subset is empty, and the trend of the
  year for month 2.
\<close>

theorem trend_depends_on_month_through_guard:
  "selected_crimes (theft_spec 1) = selected_crimes (theft_spec 2) \<and>
   selected_boroughs (theft_spec 1) = selected_boroughs (theft_spec 2) \<and>
   selected_year (theft_spec 1) = selected_year (theft_spec 2) \<and>
   monthly_data demo_table (theft_spec 1) True = None \<and>
   monthly_data demo_table (theft_spec 2) True = Some [(2, ''February'', 1)]"
  by (simp add: theft_trend) (simp add: theft_spec_def)

section \<open>The table is only read\<close>

lemma color_names_plain:
  "list_all (\<lambda>c. \<not> prefix ''#'' c \<and> \<not> prefix ''rgb'' c) (''red'' # standard_colors)"
  by (simp add: standard_colors_def)

lemma color_map_values: "snd ` set (color_map us) \<subseteq> set standard_colors"
proof -
  have "0 < length standard_colors"
    by (simp add: standard_colors_def)
  then have "standard_colors ! (i mod length standard_colors) \<in> set standard_colors" for i
    by (intro nth_mem mod_less_divisor)
  then show ?thesis
    by (auto simp: color_map_def dest!: set_zip_rightD)
qed

lemma run_script_frame:
  assumes "a < fresh s"
  shows "heap (fst (run_script a spec s)) a = heap s a"
    and "fresh s \<le> fresh (fst (run_script a spec s))"
    and "snd (run_script a spec s) \<noteq> Some a"
  using assms
  by (auto simp: run_script_def new_object_def update_object_def Let_def
      split: option.splits if_splits)

lemma run_session_frame:
  "a < fresh s \<Longrightarrow> heap (run_session a specs s) a = heap s a"
proof (induction specs arbitrary: s)
  case Nil
  then show ?case by (simp add: run_session_def)
next
  case (Cons spec specs)
  have "a < fresh (fst (run_script a spec s))"
    using Cons.prems run_script_frame(2) [of a s spec] by linarith
  then have "heap (run_session a specs (fst (run_script a spec s))) a =
             heap (fst (run_script a spec s)) a"
    by (rule Cons.IH)
  then show ?case using Cons.prems by (simp add: run_session_def run_script_frame(1))
qed

text \<open>
  C9. Let the table be an object of the store (its address is below the next free
  one). After any sequence of runs of the script, one for each filter of the list,
  the store holds at the address of the table what it held before: the same header
  and the same rows, field by field. The subset of a run is an object of its own,
  at an address other than the table's; the colour column is written into that
  object.
\<close>

theorem table_is_never_mutated:
  assumes "a < fresh s"
  shows "heap (run_session a specs s) a = heap s a \<and> snd (run_script a spec s) \<noteq> Some a"
  using assms run_session_frame run_script_frame(3) by blast

lemma demo_heap: "heap demo_session 0 = Some demo_table" "0 < fresh demo_session"
  by (simp_all add: demo_session_def)

theorem table_is_never_mutated_witness:
  "0 < fresh demo_session \<and>
   heap (run_session 0 [demo_spec 1, demo_spec 2, demo_spec 3] demo_session) 0 = Some demo_table \<and>
   snd (run_script 0 (demo_spec 1) demo_session) \<noteq> Some 0"
  using table_is_never_mutated [of 0 demo_session "[demo_spec 1, demo_spec 2, demo_spec 3]" "demo_spec 1"]
    demo_heap
  by simp

lemma demo_run:
  "snd (run_script 0 (demo_spec 1) demo_session) = Some 1"
  "map_option (map color \<circ> rows) (heap (fst (run_script 0 (demo_spec 1) demo_session)) 1) =
     Some [Some [255, 0, 0], Some [0, 0, 255], Some [255, 0, 0], Some [0, 0, 255]]"
  by code_simp+

end
